theory Spec2Isabelle
  imports Main
begin

section \<open>The responsive navigation script \<^verbatim>\<open>assets/js/app.js\<close>\<close>

text \<open>
  The script wires two handlers once the document is ready:
  \<^verbatim>\<open>
  $('.mobile-nav-btn').click(function () {
      $('nav').fadeToggle('fast');
      $(this).toggleClass('open');
  });
  $(window).on('resize', function () {
      if ($(window).width() >= 992) {
          $('nav').css('display', 'block');
          $('.mobile-nav-btn').removeClass('open');
      } else if ($(window).width() <= 991) {
          $('nav').css('display', 'none');
      }
  });
  \<close>
  The handlers read and write three things only: the width of the window, the display of
  the elements selected by \<^verbatim>\<open>$('nav')\<close>, and the presence of the class
  \<^verbatim>\<open>open\<close> on the elements selected by \<^verbatim>\<open>$('.mobile-nav-btn')\<close>.
\<close>

subsection \<open>The part of the document the handlers touch\<close>

text \<open>
  A selection holds every matching element, in document order, and may be empty, so each
  selection is a list: one display value per \<^verbatim>\<open>nav\<close> element, and one flag per
  \<^verbatim>\<open>.mobile-nav-btn\<close> element saying whether it carries the class \<^verbatim>\<open>open\<close>.
  The window's width is the integer \<^verbatim>\<open>clientWidth\<close> of the document element.
\<close>

datatype display = DisplayNone | DisplayBlock

record document =
  width :: int
  nav :: "display list"
  mobile_nav_btn :: "bool list"

subsection \<open>The library calls the script makes\<close>

text \<open>
  Each call acts on every element of its selection and does nothing on an empty one.
  \<^verbatim>\<open>fadeToggle\<close> fades a hidden element in and a displayed one out; here it is the
  display the fade ends in, which is where a click settles when no resize is handled
  before its fade has ended. The fade itself, with its start and its end, follows further
  down.
\<close>

definition fadeToggle :: "display list \<Rightarrow> display list" where
  "fadeToggle sel = map (\<lambda>d. case d of DisplayNone \<Rightarrow> DisplayBlock | DisplayBlock \<Rightarrow> DisplayNone) sel"

definition css_display :: "display \<Rightarrow> display list \<Rightarrow> display list" where
  "css_display v sel = map (\<lambda>_. v) sel"

definition toggleClass_open :: "bool \<Rightarrow> bool" where
  "toggleClass_open has_open = (\<not> has_open)"

definition removeClass_open :: "bool list \<Rightarrow> bool list" where
  "removeClass_open sel = map (\<lambda>_. False) sel"

subsection \<open>The two handlers\<close>

text \<open>
  The click handler runs on the button that was clicked (\<^verbatim>\<open>this\<close>), given here by
  its position in the selection \<^verbatim>\<open>$('.mobile-nav-btn')\<close>.
\<close>

definition click_handler :: "nat \<Rightarrow> document \<Rightarrow> document" where
  "click_handler this_btn s =
     s\<lparr>nav := fadeToggle (nav s),
       mobile_nav_btn :=
         (mobile_nav_btn s)[this_btn := toggleClass_open (mobile_nav_btn s ! this_btn)]\<rparr>"

text \<open>The two comparisons of the resize handler, in the order the script makes them.\<close>

datatype branch = WideBranch | NarrowBranch | NoBranch

definition resize_branch :: "int \<Rightarrow> branch" where
  "resize_branch w =
     (if w \<ge> 992 then WideBranch else if w \<le> 991 then NarrowBranch else NoBranch)"

definition resize_handler :: "document \<Rightarrow> document" where
  "resize_handler s =
     (case resize_branch (width s) of
        WideBranch \<Rightarrow>
          s\<lparr>nav := css_display DisplayBlock (nav s),
            mobile_nav_btn := removeClass_open (mobile_nav_btn s)\<rparr>
      | NarrowBranch \<Rightarrow> s\<lparr>nav := css_display DisplayNone (nav s)\<rparr>
      | NoBranch \<Rightarrow> s)"

subsection \<open>Events\<close>

text \<open>
  A click reaches the handler only through a button it is bound to, so a click on a
  position that holds no button runs nothing. A resize gives the window its new width and
  then runs the resize handler.
\<close>

datatype event = Click nat | Resize int

fun dispatch :: "event \<Rightarrow> document \<Rightarrow> document" where
  "dispatch (Click i) s = (if i < length (mobile_nav_btn s) then click_handler i s else s)"
| "dispatch (Resize w) s = resize_handler (s\<lparr>width := w\<rparr>)"

fun run :: "event list \<Rightarrow> document \<Rightarrow> document" where
  "run [] s = s"
| "run (e # es) s = run es (dispatch e s)"

subsection \<open>What the claims observe\<close>

definition panel_displayed :: "document \<Rightarrow> bool" where
  "panel_displayed s = list_all (\<lambda>d. d = DisplayBlock) (nav s)"

definition panel_hidden :: "document \<Rightarrow> bool" where
  "panel_hidden s = list_all (\<lambda>d. d = DisplayNone) (nav s)"

definition indicator_absent :: "document \<Rightarrow> bool" where
  "indicator_absent s = list_all (\<lambda>b. \<not> b) (mobile_nav_btn s)"

text \<open>
  The invariant of wide viewports: at a width of 992 or more the panel is displayed and
  no button carries the indicator class.
\<close>

definition wide_invariant :: "document \<Rightarrow> bool" where
  "wide_invariant s = (992 \<le> width s \<longrightarrow> panel_displayed s \<and> indicator_absent s)"

subsection \<open>The fade as the library runs it\<close>

text \<open>
  \<^verbatim>\<open>fadeToggle('fast')\<close> does not write the display when it is called. It puts a fade
  into the fx queue of each panel element. The fade starts at once when no fade of that
  element is running, and otherwise when the fades before it have ended. A fade that starts
  on a hidden element is a fade-in: it sets the display at its start. A fade that starts on
  a displayed element is a fade-out: it sets display none at its end only, 200 ms later.
  \<^const>\<open>fadeToggle\<close> above is the display one such fade ends in when nothing else
  writes the display meanwhile. A resize handler can run while a fade is running; it writes
  the display at once and leaves the running fade and the queue alone. So here each panel
  element carries its running fade and the number of fades waiting behind it, and the end
  of a fade is an event of its own.
\<close>

datatype fade = FadeIn | FadeOut

record nav_element =
  style_display :: display
  fading :: "fade option"
  fx_queue :: nat

record fx_document =
  fx_width :: int
  fx_nav :: "nav_element list"
  fx_mobile_nav_btn :: "bool list"

definition start_fade :: "nav_element \<Rightarrow> nav_element" where
  "start_fade el =
     (case style_display el of
        DisplayNone \<Rightarrow> el\<lparr>style_display := DisplayBlock, fading := Some FadeIn\<rparr>
      | DisplayBlock \<Rightarrow> el\<lparr>fading := Some FadeOut\<rparr>)"

definition queue_fadeToggle :: "nav_element \<Rightarrow> nav_element" where
  "queue_fadeToggle el =
     (case fading el of
        None \<Rightarrow> start_fade el
      | Some f \<Rightarrow> el\<lparr>fx_queue := Suc (fx_queue el)\<rparr>)"

definition end_fade :: "nav_element \<Rightarrow> nav_element" where
  "end_fade el =
     (case fading el of
        None \<Rightarrow> el
      | Some f \<Rightarrow>
          (let ended =
                 el\<lparr>style_display := (case f of FadeOut \<Rightarrow> DisplayNone | FadeIn \<Rightarrow> style_display el),
                    fading := None\<rparr>
           in case fx_queue ended of
                0 \<Rightarrow> ended
              | Suc n \<Rightarrow> start_fade (ended\<lparr>fx_queue := n\<rparr>)))"

definition fx_click_handler :: "nat \<Rightarrow> fx_document \<Rightarrow> fx_document" where
  "fx_click_handler this_btn s =
     s\<lparr>fx_nav := map queue_fadeToggle (fx_nav s),
       fx_mobile_nav_btn :=
         (fx_mobile_nav_btn s)[this_btn := toggleClass_open (fx_mobile_nav_btn s ! this_btn)]\<rparr>"

definition fx_resize_handler :: "fx_document \<Rightarrow> fx_document" where
  "fx_resize_handler s =
     (case resize_branch (fx_width s) of
        WideBranch \<Rightarrow>
          s\<lparr>fx_nav := map (\<lambda>el. el\<lparr>style_display := DisplayBlock\<rparr>) (fx_nav s),
            fx_mobile_nav_btn := removeClass_open (fx_mobile_nav_btn s)\<rparr>
      | NarrowBranch \<Rightarrow> s\<lparr>fx_nav := map (\<lambda>el. el\<lparr>style_display := DisplayNone\<rparr>) (fx_nav s)\<rparr>
      | NoBranch \<Rightarrow> s)"

text \<open>
  The events are the two of the script and the end of the running fade of one panel
  element. The end of a fade on an element that has none running changes nothing.
\<close>

datatype fx_event = FxClick nat | FxResize int | FadeEnd nat

fun fx_dispatch :: "fx_event \<Rightarrow> fx_document \<Rightarrow> fx_document" where
  "fx_dispatch (FxClick i) s =
     (if i < length (fx_mobile_nav_btn s) then fx_click_handler i s else s)"
| "fx_dispatch (FxResize w) s = fx_resize_handler (s\<lparr>fx_width := w\<rparr>)"
| "fx_dispatch (FadeEnd j) s =
     (if j < length (fx_nav s) then s\<lparr>fx_nav := (fx_nav s)[j := end_fade (fx_nav s ! j)]\<rparr>
      else s)"

fun fx_run :: "fx_event list \<Rightarrow> fx_document \<Rightarrow> fx_document" where
  "fx_run [] s = s"
| "fx_run (e # es) s = fx_run es (fx_dispatch e s)"

text \<open>What can be seen of such a state: the width, the displays and the button classes.\<close>

definition observe :: "fx_document \<Rightarrow> document" where
  "observe s =
     \<lparr>width = fx_width s, nav = map style_display (fx_nav s),
      mobile_nav_btn = fx_mobile_nav_btn s\<rparr>"

subsection \<open>The calls element by element, with failure\<close>









section \<open>Basic facts\<close>

lemma map_const_replicate: "map (\<lambda>_. v) xs = replicate (length xs) v"
  by (induction xs) auto

lemma css_display_idem: "css_display v (css_display v sel) = css_display v sel"
  by (simp add: css_display_def)

lemma removeClass_open_idem: "removeClass_open (removeClass_open sel) = removeClass_open sel"
  by (simp add: removeClass_open_def)

lemma resize_branch_wide: "992 \<le> w \<Longrightarrow> resize_branch w = WideBranch"
  by (simp add: resize_branch_def)

lemma resize_branch_narrow: "w \<le> 991 \<Longrightarrow> resize_branch w = NarrowBranch"
  by (simp add: resize_branch_def)

lemma resize_branch_cases: "resize_branch w = WideBranch \<or> resize_branch w = NarrowBranch"
  by (simp add: resize_branch_def)

lemma width_resize_handler: "width (resize_handler s) = width s"
  by (simp add: resize_handler_def split: branch.splits)

section \<open>The resize handler\<close>

text \<open>
  C5. The branch conditions are \<open>\<ge> 992\<close> and \<open>\<le> 991\<close>. The handler takes the wide
  branch exactly at the widths of 992 or more and the narrow branch exactly at the widths
  of 991 or less, so at every integer width it runs one of the two branch bodies and never
  falls through both: the wide body (every panel element to block, the indicator class
  off every button) at 992 as at 2000, the narrow body (every panel element to none,
  nothing else) at 991 as at 0.
\<close>

theorem resize_branch_boundary:
  "(\<forall>w. (resize_branch w = WideBranch) = (992 \<le> w))
   \<and> (\<forall>w. (resize_branch w = NarrowBranch) = (w \<le> 991))
   \<and> (\<forall>w. resize_branch w \<noteq> NoBranch)
   \<and> (\<forall>w. (resize_branch w = WideBranch) \<noteq> (resize_branch w = NarrowBranch))
   \<and> resize_branch 992 = WideBranch \<and> resize_branch 2000 = WideBranch
   \<and> resize_branch 991 = NarrowBranch \<and> resize_branch 0 = NarrowBranch
   \<and> (\<forall>s. resize_handler s =
          (if 992 \<le> width s
           then s\<lparr>nav := replicate (length (nav s)) DisplayBlock,
                  mobile_nav_btn := replicate (length (mobile_nav_btn s)) False\<rparr>
           else s\<lparr>nav := replicate (length (nav s)) DisplayNone\<rparr>))
   \<and> (\<forall>s. resize_handler (s\<lparr>width := 992\<rparr>) =
          s\<lparr>width := 992, nav := replicate (length (nav s)) DisplayBlock,
            mobile_nav_btn := replicate (length (mobile_nav_btn s)) False\<rparr>)
   \<and> (\<forall>s. resize_handler (s\<lparr>width := 2000\<rparr>) =
          s\<lparr>width := 2000, nav := replicate (length (nav s)) DisplayBlock,
            mobile_nav_btn := replicate (length (mobile_nav_btn s)) False\<rparr>)
   \<and> (\<forall>s. resize_handler (s\<lparr>width := 991\<rparr>) =
          s\<lparr>width := 991, nav := replicate (length (nav s)) DisplayNone\<rparr>)
   \<and> (\<forall>s. resize_handler (s\<lparr>width := 0\<rparr>) =
          s\<lparr>width := 0, nav := replicate (length (nav s)) DisplayNone\<rparr>)"
proof -
  have wide: "(resize_branch w = WideBranch) = (992 \<le> w)" for w
    by (simp add: resize_branch_def)
  have narrow: "(resize_branch w = NarrowBranch) = (w \<le> 991)" for w
    by (simp add: resize_branch_def)
  have handled: "resize_branch w \<noteq> NoBranch" for w
    by (simp add: resize_branch_def)
  have one: "(resize_branch w = WideBranch) \<noteq> (resize_branch w = NarrowBranch)" for w
    by (simp add: resize_branch_def)
  have body: "resize_handler s =
      (if 992 \<le> width s
       then s\<lparr>nav := replicate (length (nav s)) DisplayBlock,
              mobile_nav_btn := replicate (length (mobile_nav_btn s)) False\<rparr>
       else s\<lparr>nav := replicate (length (nav s)) DisplayNone\<rparr>)" for s
    by (simp add: resize_handler_def resize_branch_def css_display_def removeClass_open_def
        map_const_replicate)
  have at_992: "resize_handler (s\<lparr>width := 992\<rparr>) =
      s\<lparr>width := 992, nav := replicate (length (nav s)) DisplayBlock,
        mobile_nav_btn := replicate (length (mobile_nav_btn s)) False\<rparr>" for s
    by (simp add: body)
  have at_2000: "resize_handler (s\<lparr>width := 2000\<rparr>) =
      s\<lparr>width := 2000, nav := replicate (length (nav s)) DisplayBlock,
        mobile_nav_btn := replicate (length (mobile_nav_btn s)) False\<rparr>" for s
    by (simp add: body)
  have at_991: "resize_handler (s\<lparr>width := 991\<rparr>) =
      s\<lparr>width := 991, nav := replicate (length (nav s)) DisplayNone\<rparr>" for s
    by (simp add: body)
  have at_0: "resize_handler (s\<lparr>width := 0\<rparr>) =
      s\<lparr>width := 0, nav := replicate (length (nav s)) DisplayNone\<rparr>" for s
    by (simp add: body)
  from wide narrow handled one wide [of 992] wide [of 2000] narrow [of 991] narrow [of 0]
    body at_992 at_2000 at_991 at_0
  show ?thesis
    by (intro conjI allI) simp_all
qed

text \<open>
  C7. The resize handler sets and never toggles: at any width, running it a second time
  changes nothing that the first run left, neither a display nor an indicator.
\<close>

theorem resize_handler_idempotent:
  "resize_handler (resize_handler s) = resize_handler s
   \<and> dispatch (Resize w) (dispatch (Resize w) s) = dispatch (Resize w) s"
proof -
  have idem: "resize_handler (resize_handler t) = resize_handler t" for t
    using resize_branch_cases [of "width t"]
    by (auto simp: resize_handler_def css_display_idem removeClass_open_idem)
  have "width (resize_handler (s\<lparr>width := w\<rparr>)) = w"
    by (simp add: width_resize_handler)
  then have "(resize_handler (s\<lparr>width := w\<rparr>))\<lparr>width := w\<rparr> = resize_handler (s\<lparr>width := w\<rparr>)"
    by (metis document.surjective document.update_convs(1) width_resize_handler)
  with idem show ?thesis
    by simp
qed

lemma list_all_replicate: "list_all P (replicate n v) = (n = 0 \<or> P v)"
  by (induction n) auto

lemma nav_resize_wide:
  "992 \<le> width s \<Longrightarrow> nav (resize_handler s) = replicate (length (nav s)) DisplayBlock"
  by (simp add: resize_handler_def resize_branch_wide css_display_def map_const_replicate)

lemma btn_resize_wide:
  "992 \<le> width s \<Longrightarrow>
   mobile_nav_btn (resize_handler s) = replicate (length (mobile_nav_btn s)) False"
  by (simp add: resize_handler_def resize_branch_wide removeClass_open_def map_const_replicate)

lemma nav_resize_narrow:
  "width s \<le> 991 \<Longrightarrow> nav (resize_handler s) = replicate (length (nav s)) DisplayNone"
  by (simp add: resize_handler_def resize_branch_narrow css_display_def map_const_replicate)

lemma btn_resize_narrow:
  "width s \<le> 991 \<Longrightarrow> mobile_nav_btn (resize_handler s) = mobile_nav_btn s"
  by (simp add: resize_handler_def resize_branch_narrow)

text \<open>
  C2. At every width of 992 or more, whatever the displays and indicator classes were
  before, a resize event leaves every panel element displayed and no button with the
  indicator class.
\<close>

theorem resize_wide_forces_displayed:
  assumes "992 \<le> w"
  shows "panel_displayed (dispatch (Resize w) s)
    \<and> indicator_absent (dispatch (Resize w) s)
    \<and> nav (dispatch (Resize w) s) = replicate (length (nav s)) DisplayBlock
    \<and> mobile_nav_btn (dispatch (Resize w) s) = replicate (length (mobile_nav_btn s)) False"
proof -
  let ?t = "s\<lparr>width := w\<rparr>"
  from assms have wide: "992 \<le> width ?t"
    by simp
  have n: "nav (resize_handler ?t) = replicate (length (nav s)) DisplayBlock"
    using nav_resize_wide [OF wide] by simp
  have b: "mobile_nav_btn (resize_handler ?t) = replicate (length (mobile_nav_btn s)) False"
    using btn_resize_wide [OF wide] by simp
  from n b show ?thesis
    by (simp add: panel_displayed_def indicator_absent_def list_all_replicate)
qed

theorem resize_wide_forces_displayed_witness:
  "(992::int) \<le> 1200
   \<and> panel_displayed
        (dispatch (Resize 1200) \<lparr>width = 800, nav = [DisplayNone], mobile_nav_btn = [True]\<rparr>)
   \<and> indicator_absent
        (dispatch (Resize 1200) \<lparr>width = 800, nav = [DisplayNone], mobile_nav_btn = [True]\<rparr>)
   \<and> nav (dispatch (Resize 1200) \<lparr>width = 800, nav = [DisplayNone], mobile_nav_btn = [True]\<rparr>)
       = [DisplayBlock]
   \<and> mobile_nav_btn
        (dispatch (Resize 1200) \<lparr>width = 800, nav = [DisplayNone], mobile_nav_btn = [True]\<rparr>)
       = [False]"
  using resize_wide_forces_displayed
    [of 1200 "\<lparr>width = 800, nav = [DisplayNone], mobile_nav_btn = [True]\<rparr>"]
  by simp

text \<open>
  C3. At every width of 991 or less, whatever the state before, a resize event leaves
  every panel element hidden; this holds as well when a click has just opened the panel.
\<close>

theorem resize_narrow_hides:
  assumes "w \<le> 991"
  shows "panel_hidden (dispatch (Resize w) s)
    \<and> nav (dispatch (Resize w) s) = replicate (length (nav s)) DisplayNone
    \<and> panel_hidden (dispatch (Resize w) (dispatch (Click i) s))"
proof -
  have hid: "panel_hidden (dispatch (Resize w) t)
      \<and> nav (dispatch (Resize w) t) = replicate (length (nav t)) DisplayNone" for t
  proof -
    from assms have "width (t\<lparr>width := w\<rparr>) \<le> 991"
      by simp
    from nav_resize_narrow [OF this]
    have "nav (resize_handler (t\<lparr>width := w\<rparr>)) = replicate (length (nav t)) DisplayNone"
      by simp
    then show ?thesis
      by (simp add: panel_hidden_def list_all_replicate)
  qed
  from hid [of s] hid [of "dispatch (Click i) s"] show ?thesis
    by blast
qed

theorem resize_narrow_hides_witness:
  "(800::int) \<le> 991
   \<and> panel_hidden
        (dispatch (Resize 800) \<lparr>width = 900, nav = [DisplayBlock], mobile_nav_btn = [True]\<rparr>)
   \<and> nav (dispatch (Resize 800) \<lparr>width = 900, nav = [DisplayBlock], mobile_nav_btn = [True]\<rparr>)
       = [DisplayNone]
   \<and> panel_hidden
        (dispatch (Resize 800)
          (dispatch (Click 0) \<lparr>width = 900, nav = [DisplayNone], mobile_nav_btn = [False]\<rparr>))"
  using resize_narrow_hides
      [of 800 "\<lparr>width = 900, nav = [DisplayBlock], mobile_nav_btn = [True]\<rparr>" 0]
    resize_narrow_hides
      [of 800 "\<lparr>width = 900, nav = [DisplayNone], mobile_nav_btn = [False]\<rparr>" 0]
  by simp

text \<open>
  C9. The narrow branch writes the panel's display only: a resize event at a width of 991
  or less leaves the indicator class of every button as it was, so an indicator that was
  shown stays shown while the panel is hidden.
\<close>

theorem resize_narrow_keeps_indicator:
  assumes "w \<le> 991"
  shows "mobile_nav_btn (dispatch (Resize w) s) = mobile_nav_btn s
    \<and> nav (dispatch (Resize w) s) = replicate (length (nav s)) DisplayNone
    \<and> dispatch (Resize w) s = s\<lparr>width := w, nav := replicate (length (nav s)) DisplayNone\<rparr>"
  using assms
  by (simp add: resize_handler_def resize_branch_narrow css_display_def map_const_replicate)

theorem resize_narrow_keeps_indicator_witness:
  "(800::int) \<le> 991
   \<and> dispatch (Resize 800) \<lparr>width = 900, nav = [DisplayBlock], mobile_nav_btn = [True]\<rparr>
       = \<lparr>width = 800, nav = [DisplayNone], mobile_nav_btn = [True]\<rparr>"
  using resize_narrow_keeps_indicator
    [of 800 "\<lparr>width = 900, nav = [DisplayBlock], mobile_nav_btn = [True]\<rparr>"]
  by simp

section \<open>The click handler\<close>

lemma fadeToggle_involution: "fadeToggle (fadeToggle sel) = sel"
  by (induction sel) (auto simp: fadeToggle_def split: display.splits)

lemma fadeToggle_flips: "list_all2 (\<lambda>d d'. d' \<noteq> d) sel (fadeToggle sel)"
  by (induction sel) (auto simp: fadeToggle_def split: display.splits)

lemma fadeToggle_replicate:
  "fadeToggle (replicate n DisplayNone) = replicate n DisplayBlock"
  "fadeToggle (replicate n DisplayBlock) = replicate n DisplayNone"
  by (simp_all add: fadeToggle_def)

lemma click_handler_twice:
  assumes "i < length (mobile_nav_btn s)"
  shows "click_handler i (click_handler i s) = s"
  using assms
  by (simp add: click_handler_def fadeToggle_involution toggleClass_open_def)

lemma length_btn_click_handler:
  "length (mobile_nav_btn (click_handler i s)) = length (mobile_nav_btn s)"
  by (simp add: click_handler_def)

lemma run_clicks:
  "i < length (mobile_nav_btn s) \<Longrightarrow>
   run (replicate n (Click i)) s = (if even n then s else click_handler i s)"
proof (induction n arbitrary: s)
  case 0
  then show ?case by simp
next
  case (Suc n)
  from Suc.prems have "i < length (mobile_nav_btn (click_handler i s))"
    by (simp add: length_btn_click_handler)
  from Suc.IH [OF this] Suc.prems show ?case
    by (simp add: click_handler_twice)
qed

text \<open>
  C10. The click handler never reads the width: at every width, wide ones included, a
  click flips the display of every panel element and the indicator class of the clicked
  button, and leaves the width as it is.
\<close>

theorem click_handler_ignores_width:
  "click_handler i (s\<lparr>width := w\<rparr>) = (click_handler i s)\<lparr>width := w\<rparr>
   \<and> dispatch (Click i) (s\<lparr>width := w\<rparr>) = (dispatch (Click i) s)\<lparr>width := w\<rparr>
   \<and> nav (click_handler i (s\<lparr>width := w\<rparr>)) = fadeToggle (nav s)
   \<and> list_all2 (\<lambda>d d'. d' \<noteq> d) (nav s) (nav (click_handler i (s\<lparr>width := w\<rparr>)))
   \<and> mobile_nav_btn (click_handler i (s\<lparr>width := w\<rparr>))
       = (mobile_nav_btn s)[i := \<not> mobile_nav_btn s ! i]
   \<and> width (click_handler i (s\<lparr>width := w\<rparr>)) = w"
  by (simp add: click_handler_def toggleClass_open_def fadeToggle_flips)

text \<open>
  C4. While the width is held at 991 or less, \<open>n\<close> clicks on one button leave the state
  untouched when \<open>n\<close> is even and as one click leaves it when \<open>n\<close> is odd. So two
  clicks in a row restore the state, from the closed state the panel is open after an odd
  number of clicks and closed after an even one, and each click flips the display of the
  panel and the indicator class of the button rather than setting them.
\<close>

theorem clicks_alternate:
  assumes "i < length (mobile_nav_btn s)" and "width s \<le> 991"
  shows "run (replicate n (Click i)) s = (if even n then s else click_handler i s)
    \<and> width (run (replicate n (Click i)) s) \<le> 991
    \<and> run [Click i, Click i] s = s
    \<and> (panel_hidden s \<and> \<not> mobile_nav_btn s ! i \<longrightarrow>
         (if odd n
          then panel_displayed (run (replicate n (Click i)) s)
             \<and> mobile_nav_btn (run (replicate n (Click i)) s) ! i
          else panel_hidden (run (replicate n (Click i)) s)
             \<and> \<not> mobile_nav_btn (run (replicate n (Click i)) s) ! i))
    \<and> list_all2 (\<lambda>d d'. d' \<noteq> d) (nav s) (nav (dispatch (Click i) s))
    \<and> mobile_nav_btn (dispatch (Click i) s) ! i = (\<not> mobile_nav_btn s ! i)"
proof -
  note seq = run_clicks [OF assms(1), of n]
  have w: "width (click_handler i s) = width s"
    by (simp add: click_handler_def)
  have pair: "run [Click i, Click i] s = s"
    using assms(1) by (simp add: length_btn_click_handler click_handler_twice)
  have opened: "panel_displayed (click_handler i s)" if "panel_hidden s"
  proof -
    from that have "nav s = replicate (length (nav s)) DisplayNone"
      unfolding panel_hidden_def list_all_iff
      by (metis (mono_tags, lifting) map_const_replicate map_idI)
    then have "nav (click_handler i s) = replicate (length (nav s)) DisplayBlock"
      by (metis click_handler_def document.select_convs(2) document.surjective
          document.update_convs(2,3) fadeToggle_replicate(1))
    then show ?thesis
      by (simp add: panel_displayed_def list_all_replicate)
  qed
  have flip: "mobile_nav_btn (click_handler i s) ! i = (\<not> mobile_nav_btn s ! i)"
    using assms(1) by (simp add: click_handler_def toggleClass_open_def)
  have navs: "list_all2 (\<lambda>d d'. d' \<noteq> d) (nav s) (nav (click_handler i s))"
    by (simp add: click_handler_def fadeToggle_flips)
  from seq w pair opened flip navs assms show ?thesis
    by auto
qed

theorem clicks_alternate_witness:
  "(0::nat) < length (mobile_nav_btn \<lparr>width = 800, nav = [DisplayNone], mobile_nav_btn = [False]\<rparr>)
   \<and> width \<lparr>width = 800, nav = [DisplayNone], mobile_nav_btn = [False]\<rparr> \<le> 991
   \<and> panel_hidden \<lparr>width = 800, nav = [DisplayNone], mobile_nav_btn = [False]\<rparr>
   \<and> \<not> mobile_nav_btn \<lparr>width = 800, nav = [DisplayNone], mobile_nav_btn = [False]\<rparr> ! 0
   \<and> run (replicate 3 (Click 0)) \<lparr>width = 800, nav = [DisplayNone], mobile_nav_btn = [False]\<rparr>
       = \<lparr>width = 800, nav = [DisplayBlock], mobile_nav_btn = [True]\<rparr>
   \<and> run (replicate 4 (Click 0)) \<lparr>width = 800, nav = [DisplayNone], mobile_nav_btn = [False]\<rparr>
       = \<lparr>width = 800, nav = [DisplayNone], mobile_nav_btn = [False]\<rparr>
   \<and> panel_displayed
        (run (replicate 3 (Click 0)) \<lparr>width = 800, nav = [DisplayNone], mobile_nav_btn = [False]\<rparr>)
   \<and> panel_hidden
        (run (replicate 4 (Click 0)) \<lparr>width = 800, nav = [DisplayNone], mobile_nav_btn = [False]\<rparr>)"
  using clicks_alternate
      [of 0 "\<lparr>width = 800, nav = [DisplayNone], mobile_nav_btn = [False]\<rparr>" 3]
    clicks_alternate
      [of 0 "\<lparr>width = 800, nav = [DisplayNone], mobile_nav_btn = [False]\<rparr>" 4]
  by (simp add: click_handler_def fadeToggle_def toggleClass_open_def panel_hidden_def
      panel_displayed_def)

section \<open>Sequences of events\<close>

lemma run_append: "run (es @ fs) s = run fs (run es s)"
  by (induction es arbitrary: s) auto

lemma length_nav_dispatch: "length (nav (dispatch e s)) = length (nav s)"
  by (cases e)
    (auto simp: click_handler_def resize_handler_def fadeToggle_def css_display_def
      split: branch.splits)

lemma length_nav_run: "length (nav (run es s)) = length (nav s)"
  by (induction es arbitrary: s) (auto simp: length_nav_dispatch)

lemma nav_dispatch_resize:
  "nav (dispatch (Resize w) s)
   = replicate (length (nav s)) (if 992 \<le> w then DisplayBlock else DisplayNone)"
proof (cases "992 \<le> w")
  case True
  then have "992 \<le> width (s\<lparr>width := w\<rparr>)"
    by simp
  from nav_resize_wide [OF this] True show ?thesis
    by simp
next
  case False
  then have "width (s\<lparr>width := w\<rparr>) \<le> 991"
    by simp
  from nav_resize_narrow [OF this] False show ?thesis
    by simp
qed

lemma wide_invariant_dispatch_resize: "wide_invariant (dispatch (Resize w) s)"
proof (cases "992 \<le> w")
  case True
  then have "992 \<le> width (s\<lparr>width := w\<rparr>)"
    by simp
  from nav_resize_wide [OF this] btn_resize_wide [OF this] show ?thesis
    by (simp add: wide_invariant_def panel_displayed_def indicator_absent_def
        list_all_replicate)
next
  case False
  then have "\<not> 992 \<le> width (dispatch (Resize w) s)"
    by (simp add: width_resize_handler)
  then show ?thesis
    unfolding wide_invariant_def by blast
qed

text \<open>
  C6. The resize handler computes the panel's display from the current width alone. After
  any two sequences of resize events that end with a resize at the same width, on
  documents with the same panel elements, the displays are the same, whatever the earlier
  widths and the states before were: displayed at 992 or more, hidden below.
\<close>

theorem resize_final_display_memoryless:
  assumes "length (nav s1) = length (nav s2)"
  shows "nav (run (map Resize (ws1 @ [w])) s1) = nav (run (map Resize (ws2 @ [w])) s2)
    \<and> nav (run (map Resize (ws1 @ [w])) s1)
        = replicate (length (nav s1)) (if 992 \<le> w then DisplayBlock else DisplayNone)"
proof -
  have final: "nav (run (map Resize (ws @ [w])) s)
      = replicate (length (nav s)) (if 992 \<le> w then DisplayBlock else DisplayNone)"
    for ws s
  proof -
    have "run (map Resize (ws @ [w])) s = dispatch (Resize w) (run (map Resize ws) s)"
      by (simp add: run_append)
    then show ?thesis
      by (simp only: nav_dispatch_resize length_nav_run)
  qed
  from final [of ws1 s1] final [of ws2 s2] assms show ?thesis
    by simp
qed

theorem resize_final_display_memoryless_witness:
  "length (nav \<lparr>width = 1200, nav = [DisplayBlock], mobile_nav_btn = [False]\<rparr>)
     = length (nav \<lparr>width = 300, nav = [DisplayNone], mobile_nav_btn = [True]\<rparr>)
   \<and> nav (run (map Resize ([500, 1000] @ [800]))
            \<lparr>width = 1200, nav = [DisplayBlock], mobile_nav_btn = [False]\<rparr>)
       = nav (run (map Resize ([2000, 1500, 700, 993] @ [800]))
            \<lparr>width = 300, nav = [DisplayNone], mobile_nav_btn = [True]\<rparr>)
   \<and> nav (run (map Resize ([500, 1000] @ [800]))
            \<lparr>width = 1200, nav = [DisplayBlock], mobile_nav_btn = [False]\<rparr>)
       = [DisplayNone]"
  using resize_final_display_memoryless
    [of "\<lparr>width = 1200, nav = [DisplayBlock], mobile_nav_btn = [False]\<rparr>"
        "\<lparr>width = 300, nav = [DisplayNone], mobile_nav_btn = [True]\<rparr>"
        "[500, 1000]" 800 "[2000, 1500, 700, 993]"]
  by (simp add: resize_handler_def resize_branch_def css_display_def removeClass_open_def)

subsection \<open>Runs with the fades in them\<close>

lemma fx_run_append: "fx_run (es @ fs) s = fx_run fs (fx_run es s)"
  by (induction es arbitrary: s) auto

lemma observe_fx_resize_handler: "observe (fx_resize_handler s) = resize_handler (observe s)"
  by (simp add: observe_def fx_resize_handler_def resize_handler_def css_display_def
      comp_def split: branch.splits)

lemma observe_fx_resize:
  "observe (fx_dispatch (FxResize w) s) = dispatch (Resize w) (observe s)"
proof -
  have "observe (s\<lparr>fx_width := w\<rparr>) = (observe s)\<lparr>width := w\<rparr>"
    by (simp add: observe_def)
  then show ?thesis
    by (simp add: observe_fx_resize_handler)
qed

text \<open>
  A click on a page where no fade is running or waiting, followed by the end of the fade
  on every panel element, is seen as one run of \<^const>\<open>click_handler\<close>.
\<close>

lemma end_fade_queue_fadeToggle:
  assumes "fading el = None" and "fx_queue el = 0"
  shows "end_fade (queue_fadeToggle el) =
    el\<lparr>style_display :=
         (case style_display el of DisplayNone \<Rightarrow> DisplayBlock | DisplayBlock \<Rightarrow> DisplayNone)\<rparr>"
  using assms
  by (cases "style_display el")
    (simp_all add: end_fade_def queue_fadeToggle_def start_fade_def Let_def)

lemma fx_run_fade_ends:
  "n \<le> length (fx_nav s) \<Longrightarrow>
   fx_run (map FadeEnd [0..<n]) s =
     s\<lparr>fx_nav := map end_fade (take n (fx_nav s)) @ drop n (fx_nav s)\<rparr>"
proof (induction n)
  case 0
  then show ?case by simp
next
  case (Suc n)
  then have n: "n < length (fx_nav s)"
    by simp
  let ?t = "s\<lparr>fx_nav := map end_fade (take n (fx_nav s)) @ drop n (fx_nav s)\<rparr>"
  from Suc have run_n: "fx_run (map FadeEnd [0..<n]) s = ?t"
    by simp
  from n have at_n: "fx_nav ?t ! n = fx_nav s ! n"
    by (simp add: nth_append)
  from n have upd: "(fx_nav ?t)[n := end_fade (fx_nav s ! n)]
      = map end_fade (take (Suc n) (fx_nav s)) @ drop (Suc n) (fx_nav s)"
    by (simp add: list_update_append take_Suc_conv_app_nth Cons_nth_drop_Suc [symmetric])
  from n have "fx_dispatch (FadeEnd n) ?t = ?t\<lparr>fx_nav := (fx_nav ?t)[n := end_fade (fx_nav ?t ! n)]\<rparr>"
    by simp
  with at_n upd run_n show ?case
    by (simp add: fx_run_append)
qed

lemma click_settles:
  assumes idle: "list_all (\<lambda>el. fading el = None \<and> fx_queue el = 0) (fx_nav s)"
    and btn: "i < length (fx_mobile_nav_btn s)"
  shows "observe (fx_run (FxClick i # map FadeEnd [0..<length (fx_nav s)]) s)
    = dispatch (Click i) (observe s)"
proof -
  let ?c = "fx_click_handler i s"
  have len: "length (fx_nav ?c) = length (fx_nav s)"
    by (simp add: fx_click_handler_def)
  from idle have flip: "map style_display (map end_fade (map queue_fadeToggle (fx_nav s)))
      = fadeToggle (map style_display (fx_nav s))"
    by (induction "fx_nav s" arbitrary: s)
      (auto simp: fadeToggle_def end_fade_queue_fadeToggle list_all_iff)
  have "fx_run (map FadeEnd [0..<length (fx_nav s)]) ?c
      = ?c\<lparr>fx_nav := map end_fade (fx_nav ?c)\<rparr>"
    using fx_run_fade_ends [of "length (fx_nav s)" ?c] len by simp
  with flip btn show ?thesis
    by (simp add: observe_def fx_click_handler_def click_handler_def)
qed

text \<open>
  A fade-out that a click started ends after a resize to a wide width has been handled:
  the width is 1200, the panel is hidden.
\<close>

lemma fade_out_ends_after_wide_resize:
  "observe
     (fx_run [FxClick 0, FxResize 1200, FadeEnd 0]
        \<lparr>fx_width = 800,
         fx_nav = [\<lparr>style_display = DisplayBlock, fading = None, fx_queue = 0\<rparr>],
         fx_mobile_nav_btn = [True]\<rparr>)
   = \<lparr>width = 1200, nav = [DisplayNone], mobile_nav_btn = [False]\<rparr>"
  by (simp add: observe_def fx_click_handler_def fx_resize_handler_def resize_branch_def
      queue_fadeToggle_def start_fade_def end_fade_def toggleClass_open_def
      removeClass_open_def)

lemma length_btn_fx_dispatch:
  "length (fx_mobile_nav_btn (fx_dispatch e s)) = length (fx_mobile_nav_btn s)"
  by (cases e)
    (auto simp: fx_click_handler_def fx_resize_handler_def removeClass_open_def
      split: branch.splits)

lemma length_btn_fx_run:
  "length (fx_mobile_nav_btn (fx_run es s)) = length (fx_mobile_nav_btn s)"
  by (induction es arbitrary: s) (auto simp: length_btn_fx_dispatch)

lemma fx_resize_wide:
  assumes "992 \<le> w"
  shows "fx_width (fx_dispatch (FxResize w) s) = w"
    and "fx_mobile_nav_btn (fx_dispatch (FxResize w) s)
      = replicate (length (fx_mobile_nav_btn s)) False"
  using assms
  by (simp_all add: fx_resize_handler_def resize_branch_def removeClass_open_def
      map_const_replicate)

lemma fx_click_sets_indicator:
  assumes wide: "992 \<le> fx_width s" and btn: "i < length (fx_mobile_nav_btn s)"
    and off: "fx_mobile_nav_btn s = replicate (length (fx_mobile_nav_btn s)) False"
  shows "\<not> wide_invariant (observe (fx_dispatch (FxClick i) s))"
proof -
  let ?c = "fx_dispatch (FxClick i) s"
  from btn off have "fx_mobile_nav_btn s ! i = False"
    by (metis nth_replicate)
  with btn have "fx_mobile_nav_btn ?c ! i"
    by (simp add: fx_click_handler_def toggleClass_open_def)
  moreover from btn have "i < length (fx_mobile_nav_btn ?c)"
    by (simp add: fx_click_handler_def)
  ultimately have "\<not> indicator_absent (observe ?c)"
    unfolding indicator_absent_def observe_def list_all_iff
    by (metis document.select_convs(3) nth_mem)
  moreover from wide btn have "992 \<le> width (observe ?c)"
    by (simp add: observe_def fx_click_handler_def)
  ultimately show ?thesis
    by (simp add: wide_invariant_def)
qed

text \<open>
  C1, as the script has it. The click handler does not look at the width, and a fade-out
  hides the panel when it ends, whatever the width is by then. What holds is this: after
  any sequence of clicks, resizes and ends of fades, from any state, whose last event is a
  resize, the panel is displayed and the indicator class is absent whenever the width is
  992 or more. A click on the button that comes after a resize to a wide width sets the
  indicator class and so breaks the invariant, until the next resize. A state reached
  after the last resize by a click, or by the end of a fade-out, is not covered.
\<close>

theorem wide_invariant_after_resize:
  "wide_invariant (observe (fx_run (es @ [FxResize w]) s))
   \<and> (992 \<le> w \<and> i < length (fx_mobile_nav_btn s) \<longrightarrow>
        \<not> wide_invariant (observe (fx_run (es @ [FxResize w, FxClick i]) s)))"
proof -
  let ?t = "fx_run (es @ [FxResize w]) s"
  have t: "?t = fx_dispatch (FxResize w) (fx_run es s)"
    by (simp only: fx_run_append fx_run.simps)
  have "observe ?t = dispatch (Resize w) (observe (fx_run es s))"
    by (simp only: t observe_fx_resize)
  then have holds: "wide_invariant (observe ?t)"
    by (simp only: wide_invariant_dispatch_resize)
  have breaks: "\<not> wide_invariant (observe (fx_run (es @ [FxResize w, FxClick i]) s))"
    if wide: "992 \<le> w" and btn: "i < length (fx_mobile_nav_btn s)"
  proof -
    have len: "length (fx_mobile_nav_btn ?t) = length (fx_mobile_nav_btn s)"
      by (simp only: length_btn_fx_run)
    from fx_resize_wide [OF wide, of "fx_run es s"]
    have w: "992 \<le> fx_width ?t"
      and off: "fx_mobile_nav_btn ?t = replicate (length (fx_mobile_nav_btn ?t)) False"
      using wide by (simp_all add: t length_btn_fx_dispatch del: fx_dispatch.simps)
    from btn len have "i < length (fx_mobile_nav_btn ?t)"
      by simp
    from fx_click_sets_indicator [OF w this off]
    have "\<not> wide_invariant (observe (fx_dispatch (FxClick i) ?t))" .
    moreover have "fx_run (es @ [FxResize w, FxClick i]) s = fx_dispatch (FxClick i) ?t"
      by (simp only: fx_run_append fx_run.simps)
    ultimately show ?thesis
      by simp
  qed
  from holds breaks show ?thesis
    by blast
qed

theorem wide_invariant_after_resize_witness:
  "992 \<le> width
      (observe
        (fx_run ([FxClick 0] @ [FxResize 1200])
          \<lparr>fx_width = 800,
           fx_nav = [\<lparr>style_display = DisplayBlock, fading = None, fx_queue = 0\<rparr>],
           fx_mobile_nav_btn = [True]\<rparr>))
   \<and> panel_displayed
      (observe
        (fx_run ([FxClick 0] @ [FxResize 1200])
          \<lparr>fx_width = 800,
           fx_nav = [\<lparr>style_display = DisplayBlock, fading = None, fx_queue = 0\<rparr>],
           fx_mobile_nav_btn = [True]\<rparr>))
   \<and> indicator_absent
      (observe
        (fx_run ([FxClick 0] @ [FxResize 1200])
          \<lparr>fx_width = 800,
           fx_nav = [\<lparr>style_display = DisplayBlock, fading = None, fx_queue = 0\<rparr>],
           fx_mobile_nav_btn = [True]\<rparr>))
   \<and> (992::int) \<le> 1200
   \<and> (0::nat) < length
        (fx_mobile_nav_btn
          \<lparr>fx_width = 800,
           fx_nav = [\<lparr>style_display = DisplayBlock, fading = None, fx_queue = 0\<rparr>],
           fx_mobile_nav_btn = [True]\<rparr>)
   \<and> \<not> wide_invariant
      (observe
        (fx_run ([FxClick 0] @ [FxResize 1200, FxClick 0])
          \<lparr>fx_width = 800,
           fx_nav = [\<lparr>style_display = DisplayBlock, fading = None, fx_queue = 0\<rparr>],
           fx_mobile_nav_btn = [True]\<rparr>))"
proof -
  let ?s = "\<lparr>fx_width = 800,
             fx_nav = [\<lparr>style_display = DisplayBlock, fading = None, fx_queue = 0\<rparr>],
             fx_mobile_nav_btn = [True]\<rparr>"
  have wide: "992 \<le> width (observe (fx_run ([FxClick 0] @ [FxResize 1200]) ?s))"
    by (simp add: observe_def fx_click_handler_def fx_resize_handler_def resize_branch_def)
  have w: "(992::int) \<le> 1200" and btn: "(0::nat) < length (fx_mobile_nav_btn ?s)"
    by simp_all
  from wide_invariant_after_resize [of "[FxClick 0]" 1200 ?s 0] wide w btn show ?thesis
    unfolding wide_invariant_def by blast
qed

text \<open>
  The claim C1 as it is written fails: on a wide window where the invariant holds, one
  click leaves the width at 1200 with the panel hidden and the indicator class set. With
  the fade in the run, the indicator class is set as soon as the click is handled and the
  panel is hidden when the fade-out ends.
\<close>

theorem wide_invariant_click_counterexample:
  "wide_invariant \<lparr>width = 1200, nav = [DisplayBlock], mobile_nav_btn = [False]\<rparr>
   \<and> run [Resize 1200, Click 0] \<lparr>width = 1200, nav = [DisplayBlock], mobile_nav_btn = [False]\<rparr>
       = \<lparr>width = 1200, nav = [DisplayNone], mobile_nav_btn = [True]\<rparr>
   \<and> \<not> wide_invariant
        (run [Resize 1200, Click 0]
          \<lparr>width = 1200, nav = [DisplayBlock], mobile_nav_btn = [False]\<rparr>)
   \<and> observe
        (fx_run [FxResize 1200, FxClick 0]
          \<lparr>fx_width = 1200,
           fx_nav = [\<lparr>style_display = DisplayBlock, fading = None, fx_queue = 0\<rparr>],
           fx_mobile_nav_btn = [False]\<rparr>)
       = \<lparr>width = 1200, nav = [DisplayBlock], mobile_nav_btn = [True]\<rparr>
   \<and> observe
        (fx_run [FxResize 1200, FxClick 0, FadeEnd 0]
          \<lparr>fx_width = 1200,
           fx_nav = [\<lparr>style_display = DisplayBlock, fading = None, fx_queue = 0\<rparr>],
           fx_mobile_nav_btn = [False]\<rparr>)
       = \<lparr>width = 1200, nav = [DisplayNone], mobile_nav_btn = [True]\<rparr>
   \<and> \<not> wide_invariant \<lparr>width = 1200, nav = [DisplayBlock], mobile_nav_btn = [True]\<rparr>
   \<and> \<not> wide_invariant \<lparr>width = 1200, nav = [DisplayNone], mobile_nav_btn = [True]\<rparr>"
  by (simp add: wide_invariant_def panel_displayed_def indicator_absent_def
      resize_handler_def resize_branch_def css_display_def removeClass_open_def
      click_handler_def fadeToggle_def toggleClass_open_def
      observe_def fx_click_handler_def fx_resize_handler_def
      queue_fadeToggle_def start_fade_def end_fade_def)

section \<open>Missing elements\<close>











end
